theory Spec2Isabelle
  imports Complex_Main "HOL-Library.Word" "HOL-Library.Sublist" "HOL-Library.AList"
begin

unbundle bit_operations_syntax

section \<open>Host language: strings, numbers and arrays of the JavaScript runtime\<close>

text \<open>
  Strings are lists of characters. The models of \<^verbatim>\<open>toLowerCase\<close>, \<^verbatim>\<open>trim\<close> and
  of the regular expression class \<^verbatim>\<open>\s\<close> cover the ASCII range: upper-case letters
  \<^verbatim>\<open>A\<close>..\<^verbatim>\<open>Z\<close> and the six ASCII white-space characters. JavaScript numbers that
  hold counts, indices and download figures are integers (\<^typ>\<open>int\<close>); relevance
  scores, which are divided and halved, are rationals (\<^typ>\<open>rat\<close>), so that the
  arithmetic of the model is exact where the runtime rounds to a double.
\<close>

definition toLowerChar :: "char \<Rightarrow> char" where
  "toLowerChar c =
     (case map_of (zip ''ABCDEFGHIJKLMNOPQRSTUVWXYZ'' ''abcdefghijklmnopqrstuvwxyz'') c of
        Some l \<Rightarrow> l
      | None \<Rightarrow> c)"

definition toLowerCase :: "string \<Rightarrow> string" where
  "toLowerCase s = map toLowerChar s"

definition isSpace :: "char \<Rightarrow> bool" where
  "isSpace c = (c \<in> set [CHR '' '', CHR 0x09, CHR 0x0A, CHR 0x0B, CHR 0x0C, CHR 0x0D])"

definition trim :: "string \<Rightarrow> string" where
  "trim s = rev (dropWhile isSpace (rev (dropWhile isSpace s)))"

text \<open>\<^verbatim>\<open>text.startsWith(p)\<close>, \<^verbatim>\<open>text.endsWith(p)\<close> and \<^verbatim>\<open>text.includes(p)\<close>.\<close>

fun startsWith :: "string \<Rightarrow> string \<Rightarrow> bool" where
  "startsWith text [] = True"
| "startsWith [] (p # ps) = False"
| "startsWith (t # ts) (p # ps) = (t = p \<and> startsWith ts ps)"

definition endsWith :: "string \<Rightarrow> string \<Rightarrow> bool" where
  "endsWith text p = startsWith (rev text) (rev p)"

fun includesStr :: "string \<Rightarrow> string \<Rightarrow> bool" where
  "includesStr [] p = (p = [])"
| "includesStr (t # ts) p = (startsWith (t # ts) p \<or> includesStr ts p)"

text \<open>
  \<^verbatim>\<open>parseInt(s)\<close> without a radix: leading white space is skipped, one sign is read,
  a \<^verbatim>\<open>0x\<close> prefix selects base 16, and the longest run of digits is converted.
  No digit at all gives \<^verbatim>\<open>NaN\<close>, which is \<open>None\<close> here.
\<close>

definition digitValue :: "char \<Rightarrow> nat option" where
  "digitValue c = map_of (zip ''0123456789abcdefABCDEF''
      [0, 1, 2, 3, 4, 5, 6, 7, 8, 9, 10, 11, 12, 13, 14, 15, 10, 11, 12, 13, 14, 15]) c"

definition isDigitIn :: "nat \<Rightarrow> char \<Rightarrow> bool" where
  "isDigitIn radix c = (case digitValue c of Some d \<Rightarrow> d < radix | None \<Rightarrow> False)"

definition digitsToNat :: "nat \<Rightarrow> string \<Rightarrow> nat" where
  "digitsToNat radix ds = foldl (\<lambda>acc c. acc * radix + (case digitValue c of Some d \<Rightarrow> d | None \<Rightarrow> 0)) 0 ds"

definition parseInt :: "string \<Rightarrow> int option" where
  "parseInt s =
     (let s1 = dropWhile isSpace s;
          negative = startsWith s1 ''-'';
          s2 = (if startsWith s1 ''-'' \<or> startsWith s1 ''+'' then tl s1 else s1);
          hex = (startsWith s2 ''0x'' \<or> startsWith s2 ''0X'');
          radix = (if hex then 16 else 10);
          s3 = (if hex then drop 2 s2 else s2);
          ds = takeWhile (isDigitIn radix) s3
      in if ds = [] then None
         else Some (if negative then - int (digitsToNat radix ds) else int (digitsToNat radix ds)))"

text \<open>\<^verbatim>\<open>parseInt(s) || 0\<close>: \<^verbatim>\<open>NaN\<close> and zero are both falsy.\<close>

definition orZero :: "int option \<Rightarrow> int" where
  "orZero r = (case r of None \<Rightarrow> 0 | Some n \<Rightarrow> n)"

text \<open>
  \<^verbatim>\<open>xs.slice(start, end)\<close>: a negative index counts from the end of the array, and
  both indices are clamped to the array.
\<close>

definition arraySlice :: "'a list \<Rightarrow> int \<Rightarrow> int \<Rightarrow> 'a list" where
  "arraySlice xs start endIdx =
     (let len = int (length xs);
          k = (if start < 0 then max (len + start) 0 else min start len);
          final = (if endIdx < 0 then max (len + endIdx) 0 else min endIdx len)
      in take (nat (final - k)) (drop (nat k) xs))"

text \<open>
  \<^verbatim>\<open>xs.sort(compare)\<close> is a stable sort: an element moves in front of another one
  only when the comparator is positive for the pair in their current order. The model
  is a stable insertion sort; a comparator result of \<^verbatim>\<open>NaN\<close> counts as zero.
\<close>

fun insertBy :: "('a \<Rightarrow> 'a \<Rightarrow> rat) \<Rightarrow> 'a \<Rightarrow> 'a list \<Rightarrow> 'a list" where
  "insertBy compare x [] = [x]"
| "insertBy compare x (y # ys) =
     (if compare x y \<le> 0 then x # y # ys else y # insertBy compare x ys)"

definition sortWith :: "('a \<Rightarrow> 'a \<Rightarrow> rat) \<Rightarrow> 'a list \<Rightarrow> 'a list" where
  "sortWith compare xs = foldr (insertBy compare) xs []"


section \<open>Registry data model\<close>

datatype ServerClassification = official | community | reference

datatype TransportType = stdio | http | sse

type_synonym AgentType = string

record SearchFilters =
  query :: "string option"
  tags :: "string list option"
  classification :: "ServerClassification list option"
  transportTypes :: "TransportType list option"
  supportedPlatforms :: "AgentType list option"
  maintainer :: "string option"
  category :: "string option"
  license :: "string option"
  minDownloads :: "rat option"
  dockerSupport :: "bool option"
  hasNpmPackage :: "bool option"

datatype SortBy = relevance | downloads | name | updated

datatype SortOrder = asc | desc

record SearchOptions =
  fuzzy :: "bool option"
  limit :: "int option"
  offset :: "int option"
  sortBy :: "SortBy option"
  sortOrder :: "SortOrder option"

text \<open>
  The fields of a server descriptor that the registry manager reads. An optional
  field is an \<open>option\<close>; the remaining fields of the interface (source, install
  configuration, documentation, ...) are never read by the manager and live in the
  extension slot of the record.
\<close>

record MCPServer =
  id :: string
  name :: string
  title :: string
  description :: string
  classification :: ServerClassification
  maintainer :: string
  license :: "string option"
  estWeeklyDownloads :: string
  lastUpdated :: string
  supportedPlatforms :: "AgentType list"
  transportTypes :: "TransportType list"
  npmPackage :: "string option"
  dockerSupport :: bool
  tags :: "string list"
  category :: "string option"

record RegistryMetadata =
  version :: string
  metaLastUpdated :: string
  totalServers :: int
  sources :: "string list"
  categories :: "string list"
  metaTags :: "string list"

record MCPRegistry =
  metadata :: RegistryMetadata
  servers :: "MCPServer list"

record SearchResult =
  server :: MCPServer
  score :: rat
  matchedFields :: "string list"

record SearchResponse =
  results :: "SearchResult list"
  total :: int
  hasMore :: bool
  filters :: SearchFilters
  responseQuery :: string

text \<open>Defaults of destructuring: \<^verbatim>\<open>const { x = d } = obj\<close> takes \<open>d\<close> when the field is undefined.\<close>

definition orDefault :: "'a option \<Rightarrow> 'a \<Rightarrow> 'a" where
  "orDefault v d = (case v of None \<Rightarrow> d | Some x \<Rightarrow> x)"

text \<open>Truthiness of an optional string: undefined and the empty string are falsy.\<close>

definition truthyStr :: "string option \<Rightarrow> bool" where
  "truthyStr v = (case v of None \<Rightarrow> False | Some s \<Rightarrow> s \<noteq> [])"


section \<open>Registry manager: scoring\<close>

definition parseDownloads :: "string \<Rightarrow> int" where
  "parseDownloads downloadsStr =
     (if downloadsStr = [] \<or> downloadsStr = ''N/A'' then 0
      else
        let str = filter (\<lambda>c. \<not> (c = CHR '','' \<or> isSpace c)) (toLowerCase downloadsStr) in
        if endsWith str ''+'' then orZero (parseInt (butlast str))
        else if endsWith str ''k'' then orZero (parseInt (butlast str)) * 1000
        else if endsWith str ''m'' then orZero (parseInt (butlast str)) * 1000000
        else orZero (parseInt str))"

text \<open>
  The loop of \<^verbatim>\<open>fuzzyMatch\<close> over the characters of the text, with the loop
  variables \<^verbatim>\<open>patternIdx\<close>, \<^verbatim>\<open>score\<close> and \<^verbatim>\<open>consecutiveMatches\<close>; it stops at the
  end of the text or when the whole pattern is consumed.
\<close>

fun fuzzyLoop :: "string \<Rightarrow> string \<Rightarrow> nat \<Rightarrow> nat \<Rightarrow> nat \<Rightarrow> nat \<times> nat" where
  "fuzzyLoop pattern [] patternIdx sc consecutiveMatches = (patternIdx, sc)"
| "fuzzyLoop pattern (t # ts) patternIdx sc consecutiveMatches =
     (if patternIdx < length pattern then
        (if t = pattern ! patternIdx
         then fuzzyLoop pattern ts (patternIdx + 1) (sc + (consecutiveMatches + 1)) (consecutiveMatches + 1)
         else fuzzyLoop pattern ts patternIdx sc 0)
      else (patternIdx, sc))"

definition fuzzyMatch :: "string \<Rightarrow> string \<Rightarrow> rat" where
  "fuzzyMatch pattern text =
     (if length pattern = 0 then 0
      else if length text = 0 then 0
      else
        let (patternIdx, sc) = fuzzyLoop pattern text 0 0 0 in
        if patternIdx = length pattern then of_nat sc / of_nat (length pattern) else 0)"

definition calculateRelevanceScore :: "MCPServer \<Rightarrow> string \<Rightarrow> bool \<Rightarrow> rat" where
  "calculateRelevanceScore srv q fuzzyOn =
     (let queryLower = toLowerCase q;
          sc = 0;
          sc = (if includesStr (toLowerCase (name srv)) queryLower then sc + 10 else sc);
          sc = (if includesStr (toLowerCase (title srv)) queryLower then sc + 8 else sc);
          sc = (if includesStr (toLowerCase (description srv)) queryLower then sc + 5 else sc);
          sc = (if includesStr (toLowerCase (MCPServer.maintainer srv)) queryLower then sc + 3 else sc);
          sc = (if list_ex (\<lambda>tag. includesStr (toLowerCase tag) queryLower) (MCPServer.tags srv)
                then sc + 4 else sc);
          sc = (if fuzzyOn \<and> sc = 0
                then sc + (fuzzyMatch queryLower (toLowerCase (name srv))
                           + fuzzyMatch queryLower (toLowerCase (description srv)) * (1 / 2))
                else sc);
          dl = parseDownloads (estWeeklyDownloads srv);
          sc = (if dl > 10000 then sc + 2 else if dl > 1000 then sc + 1 else sc);
          sc = (if MCPServer.classification srv = official then sc + 2 else sc)
      in sc)"

definition getMatchedFields :: "MCPServer \<Rightarrow> string \<Rightarrow> string list" where
  "getMatchedFields srv q =
     (let queryLower = toLowerCase q;
          fields = [];
          fields = (if includesStr (toLowerCase (name srv)) queryLower then fields @ [''name''] else fields);
          fields = (if includesStr (toLowerCase (title srv)) queryLower then fields @ [''title''] else fields);
          fields = (if includesStr (toLowerCase (description srv)) queryLower
                    then fields @ [''description''] else fields);
          fields = (if includesStr (toLowerCase (MCPServer.maintainer srv)) queryLower
                    then fields @ [''maintainer''] else fields);
          fields = (if list_ex (\<lambda>tag. includesStr (toLowerCase tag) queryLower) (MCPServer.tags srv)
                    then fields @ [''tags''] else fields)
      in fields)"


section \<open>Registry manager: filtering, searching, sorting and pagination\<close>

text \<open>
  The callback of \<^verbatim>\<open>this.registry.servers.filter\<close> in \<^verbatim>\<open>searchServers\<close>, after the
  destructuring defaults: one guarded early \<^verbatim>\<open>return false\<close> per filter, in the order of
  the source.
\<close>

definition serverPassesFilters :: "SearchFilters \<Rightarrow> MCPServer \<Rightarrow> bool" where
  "serverPassesFilters f srv =
     (let tagsF = orDefault (SearchFilters.tags f) [];
          classificationF = orDefault (SearchFilters.classification f) [];
          transportTypesF = orDefault (SearchFilters.transportTypes f) [];
          supportedPlatformsF = orDefault (SearchFilters.supportedPlatforms f) []
      in
        if length classificationF > 0 \<and> \<not> (MCPServer.classification srv \<in> set classificationF)
          then False
        else if length transportTypesF > 0
                \<and> \<not> list_ex (\<lambda>t. t \<in> set (MCPServer.transportTypes srv)) transportTypesF
          then False
        else if length supportedPlatformsF > 0
                \<and> \<not> list_ex (\<lambda>p. p \<in> set (MCPServer.supportedPlatforms srv)) supportedPlatformsF
          then False
        else if length tagsF > 0 \<and> \<not> list_ex (\<lambda>t. t \<in> set (MCPServer.tags srv)) tagsF
          then False
        else if truthyStr (SearchFilters.maintainer f)
                \<and> \<not> includesStr (toLowerCase (MCPServer.maintainer srv))
                                 (toLowerCase (the (SearchFilters.maintainer f)))
          then False
        else if truthyStr (SearchFilters.category f) \<and> MCPServer.category srv \<noteq> SearchFilters.category f
          then False
        else if truthyStr (SearchFilters.license f) \<and> MCPServer.license srv \<noteq> SearchFilters.license f
          then False
        else if SearchFilters.dockerSupport f \<noteq> None
                \<and> Some (MCPServer.dockerSupport srv) \<noteq> SearchFilters.dockerSupport f
          then False
        else if hasNpmPackage f \<noteq> None \<and> Some (truthyStr (npmPackage srv)) \<noteq> hasNpmPackage f
          then False
        else if minDownloads f \<noteq> None
                \<and> of_int (parseDownloads (estWeeklyDownloads srv)) < the (minDownloads f)
          then False
        else True)"

definition filteredServers :: "SearchFilters \<Rightarrow> MCPServer list \<Rightarrow> MCPServer list" where
  "filteredServers f svs = filter (serverPassesFilters f) svs"

text \<open>The branch on \<^verbatim>\<open>query.trim()\<close>: score and keep the positive scores, or give every server score 1.\<close>

definition scoredResults :: "string \<Rightarrow> bool \<Rightarrow> MCPServer list \<Rightarrow> SearchResult list" where
  "scoredResults q fuzzyOn svs =
     (if trim q \<noteq> [] then
        filter (\<lambda>r. score r > 0)
          (map (\<lambda>srv. \<lparr>server = srv,
                        score = calculateRelevanceScore srv q fuzzyOn,
                        matchedFields = getMatchedFields srv q\<rparr>) svs)
      else
        map (\<lambda>srv. \<lparr>server = srv, score = 1, matchedFields = []\<rparr>) svs)"

text \<open>
  Two builtins of the runtime that the comparator calls are parameters of the model:
  \<^verbatim>\<open>a.localeCompare(b)\<close>, which depends on the locale, and
  \<^verbatim>\<open>new Date(s).getTime()\<close>, which is \<^verbatim>\<open>NaN\<close> (\<open>None\<close>) for a string that is no date.
\<close>

record Host =
  localeCompare :: "string \<Rightarrow> string \<Rightarrow> int"
  getTime :: "string \<Rightarrow> int option"

definition compareResults :: "Host \<Rightarrow> SortBy \<Rightarrow> SortOrder \<Rightarrow> SearchResult \<Rightarrow> SearchResult \<Rightarrow> rat" where
  "compareResults h sby ord a b =
     (case sby of
        relevance \<Rightarrow> (if ord = desc then score b - score a else score a - score b)
      | downloads \<Rightarrow>
          (let aDownloads = parseDownloads (estWeeklyDownloads (server a));
               bDownloads = parseDownloads (estWeeklyDownloads (server b))
           in of_int (if ord = desc then bDownloads - aDownloads else aDownloads - bDownloads))
      | SortBy.name \<Rightarrow>
          (let aName = toLowerCase (MCPServer.name (server a));
               bName = toLowerCase (MCPServer.name (server b))
           in of_int (if ord = desc then localeCompare h bName aName else localeCompare h aName bName))
      | updated \<Rightarrow>
          (case (getTime h (lastUpdated (server a)), getTime h (lastUpdated (server b))) of
             (Some aDate, Some bDate) \<Rightarrow> of_int (if ord = desc then bDate - aDate else aDate - bDate)
           | _ \<Rightarrow> 0))"

definition sortedResults :: "Host \<Rightarrow> SortBy \<Rightarrow> SortOrder \<Rightarrow> SearchResult list \<Rightarrow> SearchResult list" where
  "sortedResults h sby ord rs = sortWith (compareResults h sby ord) rs"

text \<open>The body of \<^verbatim>\<open>searchServers\<close> once the registry is known to be loaded.\<close>

definition searchLoaded :: "Host \<Rightarrow> MCPServer list \<Rightarrow> SearchFilters \<Rightarrow> SearchOptions \<Rightarrow> SearchResponse" where
  "searchLoaded h svs f opts =
     (let q = orDefault (query f) [];
          fuzzyOn = orDefault (fuzzy opts) True;
          lim = orDefault (limit opts) 50;
          off = orDefault (offset opts) 0;
          sby = orDefault (sortBy opts) relevance;
          ord = orDefault (sortOrder opts) desc;
          rs = scoredResults q fuzzyOn (filteredServers f svs);
          rs = sortedResults h sby ord rs;
          tot = int (length rs);
          paginatedResults = arraySlice rs off (off + lim);
          more = (off + lim < tot)
      in \<lparr>results = paginatedResults, total = tot, hasMore = more,
          filters = f, responseQuery = trim q\<rparr>)"


section \<open>Registry manager: the loaded registry as state\<close>

text \<open>
  The manager object holds the parsed registry and the time of the last load. The
  world outside is the clock (\<open>now\<close>, in milliseconds) and what reading and parsing
  the registry file gives at the time of the call: the parsed registry, or the
  message of the error that \<^verbatim>\<open>readFile\<close> or \<^verbatim>\<open>JSON.parse\<close> raises.
\<close>

record Manager =
  registry :: "MCPRegistry option"
  lastLoaded :: "int option"

record World =
  now :: int
  registryFile :: "string + MCPRegistry"

definition loadRegistry :: "World \<Rightarrow> Manager \<Rightarrow> string + Manager" where
  "loadRegistry w m =
     (case registryFile w of
        Inl msg \<Rightarrow> Inl (''Failed to load MCP registry: '' @ msg)
      | Inr r \<Rightarrow> Inr (m\<lparr>registry := Some r, lastLoaded := Some (now w)\<rparr>))"

definition ensureLoaded :: "World \<Rightarrow> Manager \<Rightarrow> string + Manager" where
  "ensureLoaded w m =
     (if registry m = None \<or> lastLoaded m = None \<or> now w - the (lastLoaded m) > 5 * 60 * 1000
      then loadRegistry w m
      else Inr m)"

text \<open>
  Every public read operation starts with \<^verbatim>\<open>await this.ensureLoaded()\<close> and the check
  \<^verbatim>\<open>if (!this.registry) throw\<close>, then computes its answer from the registry. An
  operation returns its outcome (the thrown message, or the value) and the manager
  after the call.
\<close>

definition withRegistry :: "World \<Rightarrow> Manager \<Rightarrow> (MCPRegistry \<Rightarrow> 'a) \<Rightarrow> (string + 'a) \<times> Manager" where
  "withRegistry w m body =
     (case ensureLoaded w m of
        Inl e \<Rightarrow> (Inl e, m)
      | Inr m' \<Rightarrow>
          (case registry m' of
             None \<Rightarrow> (Inl ''Registry not loaded'', m')
           | Some r \<Rightarrow> (Inr (body r), m')))"



definition searchServers ::
  "Host \<Rightarrow> World \<Rightarrow> Manager \<Rightarrow> SearchFilters \<Rightarrow> SearchOptions \<Rightarrow> (string + SearchResponse) \<times> Manager" where
  "searchServers h w m f opts = withRegistry w m (\<lambda>r. searchLoaded h (servers r) f opts)"





record RegistryStats =
  totalServers :: int
  byClassification :: "ServerClassification \<rightharpoonup> nat"
  byTransport :: "TransportType \<rightharpoonup> nat"
  byAgent :: "AgentType \<rightharpoonup> nat"
  byCategory :: "string \<rightharpoonup> nat"
  mostPopular :: "MCPServer list"
  recentlyUpdated :: "MCPServer list"
  trending :: "MCPServer list"





section \<open>JSON values and JavaScript objects\<close>

text \<open>
  A configuration is a JSON value. An object is the list of its own properties, in
  insertion order, each key once.
\<close>

datatype json =
    JNull
  | JBool bool
  | JNum rat
  | JStr string
  | JArr "json list"
  | JObj "(string \<times> json) list"

text \<open>
  The expression \<^verbatim>\<open>obj[key]\<close> on an object that \<^verbatim>\<open>JSON.parse\<close> or an object literal
  made: an own property gives its value; otherwise the lookup continues in
  \<^verbatim>\<open>Object.prototype\<close>, whose members (functions and one accessor) are all truthy; a
  key found in neither place gives \<^verbatim>\<open>undefined\<close>.
\<close>

datatype jsvalue = Undefined | Inherited | Value json

definition objectPrototypeMembers :: "string list" where
  "objectPrototypeMembers =
     [''constructor'', ''__proto__'', ''hasOwnProperty'', ''isPrototypeOf'',
      ''propertyIsEnumerable'', ''toLocaleString'', ''toString'', ''valueOf'',
      ''__defineGetter__'', ''__defineSetter__'', ''__lookupGetter__'', ''__lookupSetter__'']"

definition getProperty :: "(string \<times> json) list \<Rightarrow> string \<Rightarrow> jsvalue" where
  "getProperty obj key =
     (case map_of obj key of
        Some v \<Rightarrow> Value v
      | None \<Rightarrow> if key \<in> set objectPrototypeMembers then Inherited else Undefined)"

fun truthyJson :: "json \<Rightarrow> bool" where
  "truthyJson JNull = False"
| "truthyJson (JBool b) = b"
| "truthyJson (JNum n) = (n \<noteq> 0)"
| "truthyJson (JStr s) = (s \<noteq> [])"
| "truthyJson (JArr xs) = True"
| "truthyJson (JObj ps) = True"

fun truthy :: "jsvalue \<Rightarrow> bool" where
  "truthy Undefined = False"
| "truthy Inherited = True"
| "truthy (Value v) = truthyJson v"

text \<open>
  The assignment \<^verbatim>\<open>obj[key] = v\<close> replaces an own property in place and appends a new
  one. The one key that is not created by assignment is \<^verbatim>\<open>__proto__\<close>: without an own
  property of that name the assignment runs the inherited setter and the object gets no
  own property. (The setter replaces the prototype of the object; reads of other keys
  after such an assignment are outside what this model follows.)
\<close>

definition setProperty :: "(string \<times> json) list \<Rightarrow> string \<Rightarrow> json \<Rightarrow> (string \<times> json) list" where
  "setProperty obj key v =
     (if map_of obj key = None \<and> key = ''__proto__'' then obj else AList.update key v obj)"

definition deleteProperty :: "(string \<times> json) list \<Rightarrow> string \<Rightarrow> (string \<times> json) list" where
  "deleteProperty obj key = AList.delete key obj"

definition joinWith :: "string \<Rightarrow> string list \<Rightarrow> string" where
  "joinWith sep xs = (case xs of [] \<Rightarrow> [] | y # ys \<Rightarrow> foldl (\<lambda>acc s. acc @ sep @ s) y ys)"


section \<open>Errors, files and the runtime\<close>

text \<open>
  A thrown value is an \<^verbatim>\<open>Error\<close> with a message; the errors of the file system also
  carry a \<^verbatim>\<open>code\<close>.
\<close>

datatype JsError = Error string | ErrnoException string string

fun errorMessage :: "JsError \<Rightarrow> string" where
  "errorMessage (Error msg) = msg"
| "errorMessage (ErrnoException c msg) = msg"

fun errorCode :: "JsError \<Rightarrow> string option" where
  "errorCode (Error msg) = None"
| "errorCode (ErrnoException c msg) = Some c"

text \<open>
  The disk is a map from paths to file contents, with the paths on which reading and
  writing are refused. Directories are not part of the state: \<^verbatim>\<open>ensureDir\<close> succeeds
  and changes no file.
\<close>

record FileSystem =
  files :: "string \<rightharpoonup> string"
  denied :: "string \<Rightarrow> bool"

definition pathExists :: "FileSystem \<Rightarrow> string \<Rightarrow> bool" where
  "pathExists fs p = (files fs p \<noteq> None)"

definition readFile :: "FileSystem \<Rightarrow> string \<Rightarrow> JsError + string" where
  "readFile fs p =
     (case files fs p of
        None \<Rightarrow> Inl (ErrnoException ''ENOENT'' (''ENOENT: no such file or directory, open '' @ p))
      | Some content \<Rightarrow>
          if denied fs p then Inl (ErrnoException ''EACCES'' (''EACCES: permission denied, open '' @ p))
          else Inr content)"

definition writeFile :: "FileSystem \<Rightarrow> string \<Rightarrow> string \<Rightarrow> (JsError + unit) \<times> FileSystem" where
  "writeFile fs p content =
     (if denied fs p then (Inl (ErrnoException ''EACCES'' (''EACCES: permission denied, open '' @ p)), fs)
      else (Inr (), fs\<lparr>files := (files fs)(p \<mapsto> content)\<rparr>))"

text \<open>
  What the code takes from the runtime and the installation: \<^verbatim>\<open>JSON.parse\<close> (the
  message of the \<^verbatim>\<open>SyntaxError\<close>, or the value), \<^verbatim>\<open>JSON.stringify(v)\<close>,
  \<^verbatim>\<open>JSON.stringify(v, null, 2)\<close>, the result of \<^verbatim>\<open>new Date().toISOString()\<close> during the call,
  and the backup directory.
\<close>

record Runtime =
  JSON_parse :: "string \<Rightarrow> string + json"
  JSON_stringify :: "json \<Rightarrow> string"
  JSON_stringify2 :: "json \<Rightarrow> string"
  toISOString :: string
  getBackupDir :: string


section \<open>Configuration paths\<close>

datatype ConfigScope = user | project | remote

fun scopeName :: "ConfigScope \<Rightarrow> string" where
  "scopeName user = ''user''"
| "scopeName project = ''project''"
| "scopeName remote = ''remote''"

text \<open>The result of \<^verbatim>\<open>getAgentConfigPaths(agent)\<close>, a table lookup on the agent and the platform.\<close>

record AgentConfigPaths =
  userPath :: string
  projectPath :: "string option"
  alternativePaths :: "string list option"

definition getAgentConfigPath :: "AgentConfigPaths \<Rightarrow> ConfigScope \<Rightarrow> string" where
  "getAgentConfigPath ps scope =
     (if scope = project
      then (if truthyStr (projectPath ps) then the (projectPath ps) else userPath ps)
      else userPath ps)"

definition checkPaths :: "AgentConfigPaths \<Rightarrow> ConfigScope \<Rightarrow> string list" where
  "checkPaths ps scope =
     (if scope = project
      then filter (\<lambda>p. p \<noteq> []) ((case projectPath ps of None \<Rightarrow> [] | Some p \<Rightarrow> [p]) @ [userPath ps])
      else userPath ps # orDefault (alternativePaths ps) [])"

definition findConfigFile :: "AgentConfigPaths \<Rightarrow> FileSystem \<Rightarrow> ConfigScope \<Rightarrow> string option" where
  "findConfigFile ps fs scope = find (pathExists fs) (checkPaths ps scope)"


section \<open>The base agent adapter\<close>

record ValidationError =
  path :: string
  message :: string
  code :: string
  severity :: string

record ValidationResult =
  valid :: bool
  errors :: "ValidationError list"
  warnings :: "ValidationError list"

text \<open>
  \<^verbatim>\<open>schema.parse(config)\<close> returns, throws a \<^verbatim>\<open>ZodError\<close> with its issues, or throws
  something else.
\<close>

record ZodIssue =
  issuePath :: "string list"
  issueMessage :: string
  issueCode :: string

datatype ZodOutcome = Parsed | ZodError "ZodIssue list" | Thrown string

record BaseServerConfig =
  command :: "string option"
  args :: "string list option"
  env :: "(string \<times> string) list option"
  transport :: "TransportType option"

text \<open>
  An adapter is the base class with its abstract members filled in: the name, the paths
  of the agent, the schema and the three conversions. \<^verbatim>\<open>validate\<close> is a method that a
  subclass may replace; the methods of the base class call the adapter's own.
\<close>

record Adapter =
  agentName :: string
  configPaths :: AgentConfigPaths
  getConfigSchema :: "json \<Rightarrow> ZodOutcome"
  transformServerConfig :: "string \<Rightarrow> BaseServerConfig \<Rightarrow> TransportType \<Rightarrow> json"
  extractServers :: "json \<Rightarrow> (string \<times> json) list"
  createConfigWithServers :: "(string \<times> json) list \<Rightarrow> json"
  validate :: "json \<Rightarrow> ValidationResult"

definition getConfigPath :: "Adapter \<Rightarrow> ConfigScope \<Rightarrow> string" where
  "getConfigPath A scope = getAgentConfigPath (configPaths A) scope"

text \<open>\<^verbatim>\<open>validate\<close> of the base class, for the schema of the adapter.\<close>

definition validateBase :: "(json \<Rightarrow> ZodOutcome) \<Rightarrow> json \<Rightarrow> ValidationResult" where
  "validateBase schema config =
     (let result = \<lparr>valid = True, errors = [], warnings = []\<rparr> in
      case schema config of
        Parsed \<Rightarrow> result
      | ZodError issues \<Rightarrow>
          result\<lparr>valid := False,
                 errors := map (\<lambda>err. \<lparr>path = joinWith ''.'' (issuePath err),
                                        message = issueMessage err,
                                        code = issueCode err,
                                        severity = ''error''\<rparr>) issues\<rparr>
      | Thrown msg \<Rightarrow>
          result\<lparr>valid := False,
                 errors := errors result @ [\<lparr>path = [], message = msg,
                                             code = ''UNKNOWN_ERROR'', severity = ''error''\<rparr>]\<rparr>)"

definition invalidConfiguration :: "ValidationResult \<Rightarrow> JsError" where
  "invalidConfiguration validationResult =
     Error (''Invalid configuration: '' @ joinWith '', '' (map message (errors validationResult)))"

text \<open>The \<^verbatim>\<open>try\<close> block of \<^verbatim>\<open>read\<close>, then \<^verbatim>\<open>read\<close> with its \<^verbatim>\<open>catch\<close>.\<close>

definition readTry :: "Adapter \<Rightarrow> Runtime \<Rightarrow> FileSystem \<Rightarrow> string \<Rightarrow> JsError + json" where
  "readTry A rt fs configPath =
     (case readFile fs configPath of
        Inl err \<Rightarrow> Inl err
      | Inr configContent \<Rightarrow>
          if trim configContent = [] then Inr (createConfigWithServers A [])
          else
            (case JSON_parse rt configContent of
               Inl msg \<Rightarrow> Inl (Error msg)
             | Inr config \<Rightarrow>
                 let validationResult = validate A config in
                 if \<not> valid validationResult then Inl (invalidConfiguration validationResult)
                 else Inr config))"

definition read :: "Adapter \<Rightarrow> Runtime \<Rightarrow> FileSystem \<Rightarrow> ConfigScope \<Rightarrow> JsError + json" where
  "read A rt fs scope =
     (case findConfigFile (configPaths A) fs scope of
        None \<Rightarrow> Inr (createConfigWithServers A [])
      | Some configPath \<Rightarrow>
          (case readTry A rt fs configPath of
             Inr config \<Rightarrow> Inr config
           | Inl err \<Rightarrow>
               if errorCode err = Some ''ENOENT'' then Inr (createConfigWithServers A [])
               else Inl (Error (''Failed to read configuration: '' @ errorMessage err))))"

text \<open>\<^verbatim>\<open>write\<close>: validate, create the directory, write the formatted configuration.\<close>

definition writeTry ::
  "Adapter \<Rightarrow> Runtime \<Rightarrow> FileSystem \<Rightarrow> json \<Rightarrow> string \<Rightarrow> (JsError + unit) \<times> FileSystem" where
  "writeTry A rt fs config configPath =
     (let validationResult = validate A config in
      if \<not> valid validationResult then (Inl (invalidConfiguration validationResult), fs)
      else
        let configJson = JSON_stringify2 rt config in
        writeFile fs configPath configJson)"

definition writeConfig ::
  "Adapter \<Rightarrow> Runtime \<Rightarrow> FileSystem \<Rightarrow> json \<Rightarrow> ConfigScope \<Rightarrow> (JsError + unit) \<times> FileSystem" where
  "writeConfig A rt fs config scope =
     (let configPath = getConfigPath A scope in
      case writeTry A rt fs config configPath of
        (Inl err, fs') \<Rightarrow> (Inl (Error (''Failed to write configuration: '' @ errorMessage err)), fs')
      | (Inr u, fs') \<Rightarrow> (Inr u, fs'))"

definition addServerTry ::
  "Adapter \<Rightarrow> Runtime \<Rightarrow> FileSystem \<Rightarrow> string \<Rightarrow> BaseServerConfig \<Rightarrow> ConfigScope
     \<Rightarrow> (JsError + unit) \<times> FileSystem" where
  "addServerTry A rt fs serverId serverConfig scope =
     (case read A rt fs scope of
        Inl err \<Rightarrow> (Inl err, fs)
      | Inr config \<Rightarrow>
          let svs = extractServers A config;
              tr = orDefault (transport serverConfig) stdio;
              transformedConfig = transformServerConfig A serverId serverConfig tr;
              svs = setProperty svs serverId transformedConfig;
              newConfig = createConfigWithServers A svs
          in writeConfig A rt fs newConfig scope)"

definition addServer ::
  "Adapter \<Rightarrow> Runtime \<Rightarrow> FileSystem \<Rightarrow> string \<Rightarrow> BaseServerConfig \<Rightarrow> ConfigScope
     \<Rightarrow> (JsError + unit) \<times> FileSystem" where
  "addServer A rt fs serverId serverConfig scope =
     (case addServerTry A rt fs serverId serverConfig scope of
        (Inl err, fs') \<Rightarrow>
          (Inl (Error (''Failed to add server '' @ serverId @ '': '' @ errorMessage err)), fs')
      | (Inr u, fs') \<Rightarrow> (Inr u, fs'))"

definition removeServerTry ::
  "Adapter \<Rightarrow> Runtime \<Rightarrow> FileSystem \<Rightarrow> string \<Rightarrow> ConfigScope \<Rightarrow> (JsError + unit) \<times> FileSystem" where
  "removeServerTry A rt fs serverId scope =
     (case read A rt fs scope of
        Inl err \<Rightarrow> (Inl err, fs)
      | Inr config \<Rightarrow>
          let svs = extractServers A config in
          if truthy (getProperty svs serverId) then
            let svs = deleteProperty svs serverId;
                newConfig = createConfigWithServers A svs
            in writeConfig A rt fs newConfig scope
          else (Inr (), fs))"

definition removeServer ::
  "Adapter \<Rightarrow> Runtime \<Rightarrow> FileSystem \<Rightarrow> string \<Rightarrow> ConfigScope \<Rightarrow> (JsError + unit) \<times> FileSystem" where
  "removeServer A rt fs serverId scope =
     (case removeServerTry A rt fs serverId scope of
        (Inl err, fs') \<Rightarrow>
          (Inl (Error (''Failed to remove server '' @ serverId @ '': '' @ errorMessage err)), fs')
      | (Inr u, fs') \<Rightarrow> (Inr u, fs'))"

definition updateServer ::
  "Adapter \<Rightarrow> Runtime \<Rightarrow> FileSystem \<Rightarrow> string \<Rightarrow> BaseServerConfig \<Rightarrow> ConfigScope
     \<Rightarrow> (JsError + unit) \<times> FileSystem" where
  "updateServer A rt fs serverId serverConfig scope = addServer A rt fs serverId serverConfig scope"

text \<open>
  The loop of \<^verbatim>\<open>mergeConfig\<close> over \<^verbatim>\<open>Object.entries(sourceServers)\<close>, on the copy
  \<^verbatim>\<open>{ ...currentServers }\<close>.
\<close>

fun mergeServers ::
  "(string \<times> json) list \<Rightarrow> (string \<times> json) list \<Rightarrow> bool \<Rightarrow> (string \<times> json) list" where
  "mergeServers mergedServers [] overwrite = mergedServers"
| "mergeServers mergedServers ((serverId, serverConfig) # rest) overwrite =
     (if \<not> truthy (getProperty mergedServers serverId) \<or> overwrite
      then mergeServers (setProperty mergedServers serverId serverConfig) rest overwrite
      else mergeServers mergedServers rest overwrite)"

definition mergeConfigTry ::
  "Adapter \<Rightarrow> Runtime \<Rightarrow> FileSystem \<Rightarrow> json \<Rightarrow> ConfigScope \<Rightarrow> bool \<Rightarrow> (JsError + unit) \<times> FileSystem" where
  "mergeConfigTry A rt fs sourceConfig scope overwrite =
     (case read A rt fs scope of
        Inl err \<Rightarrow> (Inl err, fs)
      | Inr currentConfig \<Rightarrow>
          let currentServers = extractServers A currentConfig;
              sourceServers = extractServers A sourceConfig;
              mergedServers = mergeServers currentServers sourceServers overwrite;
              newConfig = createConfigWithServers A mergedServers
          in writeConfig A rt fs newConfig scope)"

definition mergeConfig ::
  "Adapter \<Rightarrow> Runtime \<Rightarrow> FileSystem \<Rightarrow> json \<Rightarrow> ConfigScope \<Rightarrow> bool \<Rightarrow> (JsError + unit) \<times> FileSystem" where
  "mergeConfig A rt fs sourceConfig scope overwrite =
     (case mergeConfigTry A rt fs sourceConfig scope overwrite of
        (Inl err, fs') \<Rightarrow> (Inl (Error (''Failed to merge configuration: '' @ errorMessage err)), fs')
      | (Inr u, fs') \<Rightarrow> (Inr u, fs'))"



section \<open>Backups of the configuration manager\<close>

text \<open>
  \<^verbatim>\<open>createSafeFilename\<close>: four replacements in a row. The nine characters
  that the first replacement names (angle brackets, colon, double quote, slash, backslash,
  bar, question mark, star) become an underscore, each run of white space becomes one underscore,
  each run of underscores becomes one, and one underscore is cut from each end.
\<close>

function collapseRuns :: "(char \<Rightarrow> bool) \<Rightarrow> string \<Rightarrow> string" where
  "collapseRuns p [] = []"
| "collapseRuns p (c # cs) =
     (if p c then CHR ''_'' # collapseRuns p (dropWhile p cs) else c # collapseRuns p cs)"
  by pat_completeness auto
termination
  by (relation "measure (\<lambda>(p, cs). length cs)") (auto simp: length_dropWhile_le less_Suc_eq_le)

definition createSafeFilename :: "string \<Rightarrow> string" where
  "createSafeFilename input =
     (let s1 = map (\<lambda>c. if c \<in> set [CHR ''<'', CHR ''>'', CHR '':'', CHR 0x22, CHR ''/'', CHR 0x5C, CHR ''|'', CHR ''?'', CHR ''*''] then CHR ''_'' else c) input;
          s2 = collapseRuns isSpace s1;
          s3 = collapseRuns (\<lambda>c. c = CHR ''_'') s2;
          s4 = (if startsWith s3 ''_'' then tl s3 else s3);
          s5 = (if endsWith s4 ''_'' then butlast s4 else s4)
      in s5)"

text \<open>
  \<^verbatim>\<open>calculateChecksum\<close>: \<^verbatim>\<open>hash = ((hash << 5) - hash) + char; hash = hash & hash\<close> keeps
  the hash a signed 32-bit integer after every character, so the arithmetic is that of
  32-bit words. The result is \<^verbatim>\<open>Math.abs(hash).toString(16)\<close>.
\<close>

function toHex :: "nat \<Rightarrow> string" where
  "toHex n = (if n < 16 then [''0123456789abcdef'' ! n]
              else toHex (n div 16) @ [''0123456789abcdef'' ! (n mod 16)])"
  by pat_completeness auto
termination
  by (relation "measure (\<lambda>n. n)") auto

definition calculateChecksum :: "string \<Rightarrow> string" where
  "calculateChecksum content =
     (let hash = foldl (\<lambda>hash c. (push_bit 5 hash - hash) + of_nat (of_char c)) (0 :: 32 word) content
      in toHex (nat \<bar>sint hash\<bar>))"

record BackupMetadata =
  backupId :: string
  agent :: AgentType
  scope :: ConfigScope
  configPath :: string
  timestamp :: string
  checksum :: string
  configSize :: nat
  compressed :: bool
  encrypted :: bool
  metaVersion :: string

record BackupResult =
  success :: bool
  resultBackupId :: string
  filePath :: string
  resultSize :: nat
  resultChecksum :: string
  error :: "string option"

text \<open>
  The object \<^verbatim>\<open>{ metadata, config }\<close> that is written to the backup file. The field
  \<^verbatim>\<open>timeElapsed\<close> of the result, a difference of two clock readings, is left out.
\<close>

definition backupData :: "BackupMetadata \<Rightarrow> json \<Rightarrow> json" where
  "backupData md config =
     JObj [(''metadata'',
            JObj [(''id'', JStr (backupId md)),
                  (''agent'', JStr (agent md)),
                  (''scope'', JStr (scopeName (scope md))),
                  (''configPath'', JStr (configPath md)),
                  (''timestamp'', JStr (timestamp md)),
                  (''checksum'', JStr (checksum md)),
                  (''size'', JNum (of_nat (configSize md))),
                  (''compressed'', JBool (compressed md)),
                  (''encrypted'', JBool (encrypted md)),
                  (''version'', JStr (metaVersion md))]),
           (''config'', config)]"

definition configurationNotFound :: "AgentType \<Rightarrow> ConfigScope \<Rightarrow> JsError" where
  "configurationNotFound ag sc =
     Error (''Configuration file not found for '' @ ag @ '' (scope: '' @ scopeName sc @ '')'')"

definition loadAgentConfig ::
  "AgentConfigPaths \<Rightarrow> Runtime \<Rightarrow> FileSystem \<Rightarrow> AgentType \<Rightarrow> ConfigScope \<Rightarrow> JsError + json" where
  "loadAgentConfig ps rt fs ag sc =
     (case findConfigFile ps fs sc of
        None \<Rightarrow> Inl (configurationNotFound ag sc)
      | Some p \<Rightarrow>
          (case readFile fs p of
             Inl err \<Rightarrow> Inl (Error (''Failed to load '' @ ag @ '' configuration: '' @ errorMessage err))
           | Inr configContent \<Rightarrow>
               (case JSON_parse rt configContent of
                  Inl msg \<Rightarrow> Inl (Error (''Failed to load '' @ ag @ '' configuration: '' @ msg))
                | Inr config \<Rightarrow> Inr config)))"

definition backupMetadataOf ::
  "Runtime \<Rightarrow> AgentType \<Rightarrow> ConfigScope \<Rightarrow> string \<Rightarrow> json \<Rightarrow> BackupMetadata" where
  "backupMetadataOf rt ag sc p config =
     (let ts = map (\<lambda>c. if c = CHR '':'' \<or> c = CHR ''.'' then CHR ''-'' else c) (toISOString rt);
          bid = ag @ ''-'' @ scopeName sc @ ''-'' @ ts
      in \<lparr>backupId = bid, agent = ag, scope = sc, configPath = p,
          timestamp = toISOString rt,
          checksum = calculateChecksum (JSON_stringify rt config),
          configSize = length (JSON_stringify rt config),
          compressed = False, encrypted = False, metaVersion = ''1.0.0''\<rparr>)"

definition backupPathOf :: "Runtime \<Rightarrow> string \<Rightarrow> string" where
  "backupPathOf rt bid = getBackupDir rt @ ''/'' @ createSafeFilename bid @ ''.json''"

text \<open>The \<^verbatim>\<open>try\<close> block of \<^verbatim>\<open>createBackup\<close>; its \<^verbatim>\<open>catch\<close> turns an error into a failed result.\<close>

definition createBackupTry ::
  "AgentConfigPaths \<Rightarrow> Runtime \<Rightarrow> FileSystem \<Rightarrow> AgentType \<Rightarrow> ConfigScope
     \<Rightarrow> (JsError + BackupResult) \<times> FileSystem" where
  "createBackupTry ps rt fs ag sc =
     (case findConfigFile ps fs sc of
        None \<Rightarrow> (Inl (configurationNotFound ag sc), fs)
      | Some p \<Rightarrow>
          (case loadAgentConfig ps rt fs ag sc of
             Inl err \<Rightarrow> (Inl err, fs)
           | Inr config \<Rightarrow>
               let md = backupMetadataOf rt ag sc p config;
                   backupPath = backupPathOf rt (backupId md);
                   data = backupData md config
               in (case writeFile fs backupPath (JSON_stringify2 rt data) of
                     (Inl err, fs') \<Rightarrow> (Inl err, fs')
                   | (Inr u, fs') \<Rightarrow>
                       (Inr \<lparr>success = True, resultBackupId = backupId md, filePath = backupPath,
                             resultSize = length (JSON_stringify rt data),
                             resultChecksum = checksum md, error = None\<rparr>, fs'))))"

definition createBackup ::
  "AgentConfigPaths \<Rightarrow> Runtime \<Rightarrow> FileSystem \<Rightarrow> AgentType \<Rightarrow> ConfigScope \<Rightarrow> BackupResult \<times> FileSystem" where
  "createBackup ps rt fs ag sc =
     (case createBackupTry ps rt fs ag sc of
        (Inr res, fs') \<Rightarrow> (res, fs')
      | (Inl err, fs') \<Rightarrow>
          (\<lparr>success = False, resultBackupId = [], filePath = [], resultSize = 0,
            resultChecksum = [], error = Some (errorMessage err)\<rparr>, fs'))"

text \<open>\<^verbatim>\<open>backup\<close> of the adapter: the one caller of \<^verbatim>\<open>createBackup\<close>.\<close>

definition backup :: "Adapter \<Rightarrow> Runtime \<Rightarrow> FileSystem \<Rightarrow> ConfigScope \<Rightarrow> (JsError + string) \<times> FileSystem" where
  "backup A rt fs sc =
     (let (backupResult, fs') = createBackup (configPaths A) rt fs (agentName A) sc in
      if \<not> success backupResult
      then (Inl (Error (''Failed to create backup: '' @ orDefault (error backupResult) ''undefined'')), fs')
      else (Inr (filePath backupResult), fs'))"


section \<open>An adapter: the test adapter of the base class\<close>

text \<open>
  The schema of the adapter:
  \<^verbatim>\<open>z.object({ mcpServers: z.record(z.object({ command: z.string(),
     args: z.array(z.string()).optional(), env: z.record(z.string()).optional() })).default({}) })\<close>.
  The issues that zod reports for a value outside the schema are represented by one
  issue; the adapter only uses the fact that parsing fails.
\<close>

definition isStr :: "json \<Rightarrow> bool" where
  "isStr v = (case v of JStr s \<Rightarrow> True | _ \<Rightarrow> False)"

definition serverEntryOk :: "json \<Rightarrow> bool" where
  "serverEntryOk v =
     (case v of
        JObj ps \<Rightarrow>
          (case map_of ps ''command'' of Some (JStr c) \<Rightarrow> True | _ \<Rightarrow> False)
          \<and> (case map_of ps ''args'' of
                None \<Rightarrow> True
              | Some (JArr xs) \<Rightarrow> list_all isStr xs
              | _ \<Rightarrow> False)
          \<and> (case map_of ps ''env'' of
                None \<Rightarrow> True
              | Some (JObj es) \<Rightarrow> list_all (\<lambda>(k, x). isStr x) es
              | _ \<Rightarrow> False)
      | _ \<Rightarrow> False)"

definition testSchemaOk :: "json \<Rightarrow> bool" where
  "testSchemaOk config =
     (case config of
        JObj ps \<Rightarrow>
          (case map_of ps ''mcpServers'' of
             None \<Rightarrow> True
           | Some (JObj svs) \<Rightarrow> list_all (\<lambda>(k, v). serverEntryOk v) svs
           | _ \<Rightarrow> False)
      | _ \<Rightarrow> False)"

definition testSchema :: "json \<Rightarrow> ZodOutcome" where
  "testSchema config =
     (if testSchemaOk config then Parsed
      else ZodError [\<lparr>issuePath = [''mcpServers''], issueMessage = ''Invalid input'',
                      issueCode = ''invalid_type''\<rparr>])"

definition strArray :: "string list \<Rightarrow> json" where
  "strArray xs = JArr (map JStr xs)"

definition strRecord :: "(string \<times> string) list \<Rightarrow> json" where
  "strRecord es = JObj (map (\<lambda>(k, v). (k, JStr v)) es)"

definition testTransformServerConfig :: "string \<Rightarrow> BaseServerConfig \<Rightarrow> TransportType \<Rightarrow> json" where
  "testTransformServerConfig serverId serverConfig tr =
     JObj [(''command'', JStr (if truthyStr (command serverConfig) then the (command serverConfig) else ''node'')),
           (''args'', strArray (orDefault (args serverConfig) [])),
           (''env'', strRecord (orDefault (env serverConfig) []))]"

text \<open>
  \<^verbatim>\<open>config.mcpServers || {}\<close>: the object under \<^verbatim>\<open>mcpServers\<close>. A configuration whose
  \<^verbatim>\<open>mcpServers\<close> is truthy but no object does not pass the schema; for such a value the
  result here is the empty object.
\<close>

definition testExtractServers :: "json \<Rightarrow> (string \<times> json) list" where
  "testExtractServers config =
     (case config of
        JObj ps \<Rightarrow> (case map_of ps ''mcpServers'' of Some (JObj svs) \<Rightarrow> svs | _ \<Rightarrow> [])
      | _ \<Rightarrow> [])"

definition testCreateConfigWithServers :: "(string \<times> json) list \<Rightarrow> json" where
  "testCreateConfigWithServers svs = JObj [(''mcpServers'', JObj svs)]"

definition TestAdapter :: "AgentConfigPaths \<Rightarrow> Adapter" where
  "TestAdapter ps =
     \<lparr>agentName = ''claude'',
      configPaths = ps,
      getConfigSchema = testSchema,
      transformServerConfig = testTransformServerConfig,
      extractServers = testExtractServers,
      createConfigWithServers = testCreateConfigWithServers,
      validate = validateBase testSchema\<rparr>"



section \<open>The statements of the specification\<close>

text \<open>
  The score as the specification states it: the sum of the weights of the fields that
  contain the query, the fuzzy bonus, and the two boosts.
\<close>

definition substringWeights :: "MCPServer \<Rightarrow> string \<Rightarrow> rat" where
  "substringWeights srv q =
     (let queryLower = toLowerCase q in
        (if includesStr (toLowerCase (MCPServer.name srv)) queryLower then 10 else 0)
      + (if includesStr (toLowerCase (title srv)) queryLower then 8 else 0)
      + (if includesStr (toLowerCase (description srv)) queryLower then 5 else 0)
      + (if includesStr (toLowerCase (MCPServer.maintainer srv)) queryLower then 3 else 0)
      + (if list_ex (\<lambda>tag. includesStr (toLowerCase tag) queryLower) (MCPServer.tags srv) then 4 else 0))"

definition fuzzyBonus :: "MCPServer \<Rightarrow> string \<Rightarrow> bool \<Rightarrow> rat" where
  "fuzzyBonus srv q fuzzyOn =
     (if fuzzyOn \<and> substringWeights srv q = 0
      then fuzzyMatch (toLowerCase q) (toLowerCase (MCPServer.name srv))
           + fuzzyMatch (toLowerCase q) (toLowerCase (description srv)) / 2
      else 0)"

definition popularityBoost :: "MCPServer \<Rightarrow> rat" where
  "popularityBoost srv =
     (if parseDownloads (estWeeklyDownloads srv) > 10000 then 2
      else if parseDownloads (estWeeklyDownloads srv) > 1000 then 1 else 0)"

definition officialBoost :: "MCPServer \<Rightarrow> rat" where
  "officialBoost srv = (if MCPServer.classification srv = official then 2 else 0)"

text \<open>
  One predicate per filter: a filter that is not supplied (undefined, an empty list or
  an empty string) is satisfied by every server.
\<close>

definition classificationOk :: "SearchFilters \<Rightarrow> MCPServer \<Rightarrow> bool" where
  "classificationOk f srv =
     (case SearchFilters.classification f of
        None \<Rightarrow> True
      | Some cs \<Rightarrow> cs = [] \<or> MCPServer.classification srv \<in> set cs)"

definition transportOk :: "SearchFilters \<Rightarrow> MCPServer \<Rightarrow> bool" where
  "transportOk f srv =
     (case SearchFilters.transportTypes f of
        None \<Rightarrow> True
      | Some ts \<Rightarrow> ts = [] \<or> set ts \<inter> set (MCPServer.transportTypes srv) \<noteq> {})"

definition platformsOk :: "SearchFilters \<Rightarrow> MCPServer \<Rightarrow> bool" where
  "platformsOk f srv =
     (case SearchFilters.supportedPlatforms f of
        None \<Rightarrow> True
      | Some ps \<Rightarrow> ps = [] \<or> set ps \<inter> set (MCPServer.supportedPlatforms srv) \<noteq> {})"

definition tagsOk :: "SearchFilters \<Rightarrow> MCPServer \<Rightarrow> bool" where
  "tagsOk f srv =
     (case SearchFilters.tags f of
        None \<Rightarrow> True
      | Some ts \<Rightarrow> ts = [] \<or> set ts \<inter> set (MCPServer.tags srv) \<noteq> {})"

definition maintainerOk :: "SearchFilters \<Rightarrow> MCPServer \<Rightarrow> bool" where
  "maintainerOk f srv =
     (case SearchFilters.maintainer f of
        None \<Rightarrow> True
      | Some mt \<Rightarrow> mt = [] \<or> includesStr (toLowerCase (MCPServer.maintainer srv)) (toLowerCase mt))"

definition categoryOk :: "SearchFilters \<Rightarrow> MCPServer \<Rightarrow> bool" where
  "categoryOk f srv =
     (case SearchFilters.category f of
        None \<Rightarrow> True
      | Some c \<Rightarrow> c = [] \<or> MCPServer.category srv = Some c)"

definition licenseOk :: "SearchFilters \<Rightarrow> MCPServer \<Rightarrow> bool" where
  "licenseOk f srv =
     (case SearchFilters.license f of
        None \<Rightarrow> True
      | Some l \<Rightarrow> l = [] \<or> MCPServer.license srv = Some l)"

definition dockerOk :: "SearchFilters \<Rightarrow> MCPServer \<Rightarrow> bool" where
  "dockerOk f srv =
     (case SearchFilters.dockerSupport f of
        None \<Rightarrow> True
      | Some d \<Rightarrow> MCPServer.dockerSupport srv = d)"

definition npmOk :: "SearchFilters \<Rightarrow> MCPServer \<Rightarrow> bool" where
  "npmOk f srv =
     (case hasNpmPackage f of
        None \<Rightarrow> True
      | Some b \<Rightarrow> truthyStr (npmPackage srv) = b)"

definition downloadsOk :: "SearchFilters \<Rightarrow> MCPServer \<Rightarrow> bool" where
  "downloadsOk f srv =
     (case minDownloads f of
        None \<Rightarrow> True
      | Some n \<Rightarrow> n \<le> of_int (parseDownloads (estWeeklyDownloads srv)))"

definition satisfiesEveryFilter :: "SearchFilters \<Rightarrow> MCPServer \<Rightarrow> bool" where
  "satisfiesEveryFilter f srv =
     (classificationOk f srv \<and> transportOk f srv \<and> platformsOk f srv \<and> tagsOk f srv
      \<and> maintainerOk f srv \<and> categoryOk f srv \<and> licenseOk f srv \<and> dockerOk f srv
      \<and> npmOk f srv \<and> downloadsOk f srv)"

text \<open>
  A textual match of the query in a server: the lower-cased query is contained in one of
  the five fields, or it is a subsequence of the lower-cased name or description (the two
  fields that the fuzzy matcher reads).
\<close>

definition textualMatch :: "MCPServer \<Rightarrow> string \<Rightarrow> bool" where
  "textualMatch srv q =
     (let queryLower = toLowerCase q in
        includesStr (toLowerCase (MCPServer.name srv)) queryLower
      \<or> includesStr (toLowerCase (title srv)) queryLower
      \<or> includesStr (toLowerCase (description srv)) queryLower
      \<or> includesStr (toLowerCase (MCPServer.maintainer srv)) queryLower
      \<or> list_ex (\<lambda>tag. includesStr (toLowerCase tag) queryLower) (MCPServer.tags srv)
      \<or> (queryLower \<noteq> [] \<and> subseq queryLower (toLowerCase (MCPServer.name srv)))
      \<or> (queryLower \<noteq> [] \<and> subseq queryLower (toLowerCase (description srv))))"

text \<open>
  The matches of a search before pagination: the filtered servers, scored, in the order
  of the sort.
\<close>

definition sortedMatches :: "Host \<Rightarrow> SearchFilters \<Rightarrow> SearchOptions \<Rightarrow> MCPServer list \<Rightarrow> SearchResult list" where
  "sortedMatches h f opts svs =
     sortedResults h (orDefault (sortBy opts) relevance) (orDefault (sortOrder opts) desc)
       (scoredResults (orDefault (query f) []) (orDefault (fuzzy opts) True) (filteredServers f svs))"



section \<open>Sample data\<close>

definition sampleHost :: Host where
  "sampleHost = \<lparr>localeCompare = (\<lambda>a b. 0), getTime = (\<lambda>s. None)\<rparr>"

definition sampleServer :: "string \<Rightarrow> string \<Rightarrow> ServerClassification \<Rightarrow> string \<Rightarrow> MCPServer" where
  "sampleServer i d c dl =
     \<lparr>id = i, name = i, title = i, description = d, classification = c,
      maintainer = ''acme'', license = Some ''MIT'', estWeeklyDownloads = dl,
      lastUpdated = ''2024-01-01'', supportedPlatforms = [''claude''],
      transportTypes = [stdio], npmPackage = None, dockerSupport = False,
      tags = [''files''], category = Some ''dev''\<rparr>"

definition sampleMetadata :: RegistryMetadata where
  "sampleMetadata = \<lparr>version = ''1'', metaLastUpdated = ''2024-01-01'', totalServers = 3,
                      sources = [], categories = [''dev''], metaTags = [''files'']\<rparr>"

definition sampleRegistry :: MCPRegistry where
  "sampleRegistry =
     \<lparr>metadata = sampleMetadata,
      servers = [sampleServer ''alpha'' ''first tool'' official ''N/A'',
                 sampleServer ''beta'' ''second tool'' community ''500'',
                 sampleServer ''gamma'' ''third tool'' community ''800'']\<rparr>"


definition noFilters :: SearchFilters where
  "noFilters = \<lparr>query = None, SearchFilters.tags = None, SearchFilters.classification = None,
     SearchFilters.transportTypes = None, SearchFilters.supportedPlatforms = None,
     SearchFilters.maintainer = None, SearchFilters.category = None, SearchFilters.license = None,
     minDownloads = None, SearchFilters.dockerSupport = None, hasNpmPackage = None\<rparr>"

definition defaultOptions :: SearchOptions where
  "defaultOptions = \<lparr>fuzzy = None, limit = None, offset = None, sortBy = None, sortOrder = None\<rparr>"

definition loadedManager :: Manager where
  "loadedManager = \<lparr>registry = Some sampleRegistry, lastLoaded = Some 0\<rparr>"

definition sampleWorld :: World where
  "sampleWorld = \<lparr>now = 1000, registryFile = Inr sampleRegistry\<rparr>"


definition samplePaths :: AgentConfigPaths where
  "samplePaths = \<lparr>userPath = ''/home/u/.claude/settings.json'',
                   projectPath = Some ''./.claude/settings.json'',
                   alternativePaths = None\<rparr>"

text \<open>
  A configuration with one server, as a compact text and as it is written with an
  indentation of two, and the configuration without servers.
\<close>

definition configA :: json where
  "configA = JObj [(''mcpServers'', JObj [(''a'', JObj [(''command'', JStr ''node'')])])]"

definition configEmpty :: json where
  "configEmpty = JObj [(''mcpServers'', JObj [])]"

definition compactA :: string where
  \<open>compactA = ''{"mcpServers":{"a":{"command":"node"}}}''\<close>

definition prettyA :: string where
  \<open>prettyA = ''{'' @ [CHR 0x0A] @ ''  "mcpServers": {'' @ [CHR 0x0A] @ ''    "a": {'' @ [CHR 0x0A]
     @ ''      "command": "node"'' @ [CHR 0x0A] @ ''    }'' @ [CHR 0x0A] @ ''  }'' @ [CHR 0x0A] @ ''}''\<close>

definition prettyEmpty :: string where
  \<open>prettyEmpty = ''{'' @ [CHR 0x0A] @ ''  "mcpServers": {}'' @ [CHR 0x0A] @ ''}''\<close>

text \<open>A runtime that knows these texts; any other text does not parse.\<close>

definition sampleRuntime :: Runtime where
  "sampleRuntime =
     \<lparr>JSON_parse = (\<lambda>s. if s = compactA \<or> s = prettyA then Inr configA
                         else if s = prettyEmpty then Inr configEmpty
                         else Inl ''Unexpected token''),
      JSON_stringify = (\<lambda>v. if v = configA then compactA else ''null''),
      JSON_stringify2 = (\<lambda>v. if v = configA then prettyA
                              else if v = configEmpty then prettyEmpty else ''null''),
      toISOString = ''2024-05-01T10:20:30.456Z'',
      getBackupDir = ''/home/u/.local/share/mcp-box/backups''\<rparr>"

definition emptyDisk :: FileSystem where
  "emptyDisk = \<lparr>files = Map.empty, denied = (\<lambda>p. False)\<rparr>"

definition diskA :: FileSystem where
  "diskA = \<lparr>files = [''/home/u/.claude/settings.json'' \<mapsto> compactA], denied = (\<lambda>p. False)\<rparr>"

definition blankDisk :: FileSystem where
  "blankDisk = \<lparr>files = [''/home/u/.claude/settings.json'' \<mapsto> [CHR '' '', CHR 0x0A]],
                 denied = (\<lambda>p. False)\<rparr>"

text \<open>Calls used as examples below.\<close>

definition searchZzz :: "(string + SearchResponse) \<times> Manager" where
  "searchZzz = searchServers sampleHost sampleWorld loadedManager
                 (noFilters\<lparr>query := Some ''zzz''\<rparr>) defaultOptions"






section \<open>Properties of the registry search\<close>

subsection \<open>Sorting and slicing keep what they are given\<close>

lemma set_insertBy: "set (insertBy c x ys) = insert x (set ys)"
  by (induction ys) auto

lemma set_sortWith: "set (sortWith c xs) = set xs"
  by (induction xs) (simp_all add: sortWith_def set_insertBy)



lemma set_slice: "set (arraySlice xs a b) \<subseteq> set xs"
  unfolding arraySlice_def Let_def by (meson set_take_subset set_drop_subset subset_trans)


subsection \<open>The search in terms of its stages\<close>



lemma searchLoaded_stages:
  "searchLoaded h svs f opts =
     \<lparr>results = arraySlice (sortedMatches h f opts svs) (orDefault (offset opts) 0)
                    (orDefault (offset opts) 0 + orDefault (limit opts) 50),
      total = int (length (sortedMatches h f opts svs)),
      hasMore = (orDefault (offset opts) 0 + orDefault (limit opts) 50
                   < int (length (sortedMatches h f opts svs))),
      filters = f,
      responseQuery = trim (orDefault (query f) [])\<rparr>"
  by (simp add: searchLoaded_def sortedMatches_def Let_def)

lemma set_sortedMatches:
  "set (sortedMatches h f opts svs)
     = set (scoredResults (orDefault (query f) []) (orDefault (fuzzy opts) True) (filteredServers f svs))"
  by (simp add: sortedMatches_def sortedResults_def set_sortWith)


lemma results_searchLoaded_subset:
  "set (results (searchLoaded h svs f opts))
     \<subseteq> set (scoredResults (orDefault (query f) []) (orDefault (fuzzy opts) True) (filteredServers f svs))"
  using set_slice [of "sortedMatches h f opts svs" "orDefault (offset opts) 0"
                      "orDefault (offset opts) 0 + orDefault (limit opts) 50"]
  by (simp add: searchLoaded_stages set_sortedMatches)


lemma scoredResults_server: "r \<in> set (scoredResults q fz svs) \<Longrightarrow> server r \<in> set svs"
  unfolding scoredResults_def by (auto split: if_splits)

lemma calculateRelevanceScore_sum:
  "calculateRelevanceScore srv q fz =
     substringWeights srv q + fuzzyBonus srv q fz + popularityBoost srv + officialBoost srv"
  unfolding calculateRelevanceScore_def substringWeights_def fuzzyBonus_def
    popularityBoost_def officialBoost_def Let_def
  by simp

lemma searchServers_sample:
  "searchServers sampleHost sampleWorld loadedManager f opts
     = (Inr (searchLoaded sampleHost (servers sampleRegistry) f opts), loadedManager)"
  by (simp add: searchServers_def withRegistry_def ensureLoaded_def loadedManager_def sampleWorld_def)

subsection \<open>The relevance score\<close>



subsection \<open>The filters\<close>

lemma list_ex_mem_inter: "list_ex (\<lambda>t. t \<in> set ys) xs \<longleftrightarrow> set xs \<inter> set ys \<noteq> {}"
  by (auto simp: list_ex_iff)

lemma classification_guard:
  "(length (orDefault (SearchFilters.classification f) []) > 0
      \<and> \<not> (MCPServer.classification srv \<in> set (orDefault (SearchFilters.classification f) [])))
   \<longleftrightarrow> \<not> classificationOk f srv"
  by (auto simp: classificationOk_def orDefault_def split: option.splits)

lemma transport_guard:
  "(length (orDefault (SearchFilters.transportTypes f) []) > 0
      \<and> \<not> list_ex (\<lambda>t. t \<in> set (MCPServer.transportTypes srv)) (orDefault (SearchFilters.transportTypes f) []))
   \<longleftrightarrow> \<not> transportOk f srv"
  by (auto simp: transportOk_def orDefault_def list_ex_mem_inter split: option.splits)

lemma platforms_guard:
  "(length (orDefault (SearchFilters.supportedPlatforms f) []) > 0
      \<and> \<not> list_ex (\<lambda>p. p \<in> set (MCPServer.supportedPlatforms srv)) (orDefault (SearchFilters.supportedPlatforms f) []))
   \<longleftrightarrow> \<not> platformsOk f srv"
  by (auto simp: platformsOk_def orDefault_def list_ex_mem_inter split: option.splits)

lemma tags_guard:
  "(length (orDefault (SearchFilters.tags f) []) > 0
      \<and> \<not> list_ex (\<lambda>t. t \<in> set (MCPServer.tags srv)) (orDefault (SearchFilters.tags f) []))
   \<longleftrightarrow> \<not> tagsOk f srv"
  by (auto simp: tagsOk_def orDefault_def list_ex_mem_inter split: option.splits)

lemma maintainer_guard:
  "(truthyStr (SearchFilters.maintainer f)
      \<and> \<not> includesStr (toLowerCase (MCPServer.maintainer srv)) (toLowerCase (the (SearchFilters.maintainer f))))
   \<longleftrightarrow> \<not> maintainerOk f srv"
  by (auto simp: maintainerOk_def truthyStr_def split: option.splits)

lemma category_guard:
  "(truthyStr (SearchFilters.category f) \<and> MCPServer.category srv \<noteq> SearchFilters.category f)
   \<longleftrightarrow> \<not> categoryOk f srv"
  by (auto simp: categoryOk_def truthyStr_def split: option.splits)

lemma license_guard:
  "(truthyStr (SearchFilters.license f) \<and> MCPServer.license srv \<noteq> SearchFilters.license f)
   \<longleftrightarrow> \<not> licenseOk f srv"
  by (auto simp: licenseOk_def truthyStr_def split: option.splits)

lemma docker_guard:
  "(SearchFilters.dockerSupport f \<noteq> None \<and> Some (MCPServer.dockerSupport srv) \<noteq> SearchFilters.dockerSupport f)
   \<longleftrightarrow> \<not> dockerOk f srv"
  by (auto simp: dockerOk_def split: option.splits)

lemma npm_guard:
  "(hasNpmPackage f \<noteq> None \<and> Some (truthyStr (npmPackage srv)) \<noteq> hasNpmPackage f)
   \<longleftrightarrow> \<not> npmOk f srv"
  by (auto simp: npmOk_def split: option.splits)

lemma downloads_guard:
  "(minDownloads f \<noteq> None \<and> of_int (parseDownloads (estWeeklyDownloads srv)) < the (minDownloads f))
   \<longleftrightarrow> \<not> downloadsOk f srv"
  by (auto simp: downloadsOk_def split: option.splits)

lemma serverPassesFilters_iff: "serverPassesFilters f srv \<longleftrightarrow> satisfiesEveryFilter f srv"
  unfolding serverPassesFilters_def Let_def satisfiesEveryFilter_def
  unfolding classification_guard transport_guard platforms_guard tags_guard maintainer_guard
    category_guard license_guard docker_guard npm_guard downloads_guard
  by simp

text \<open>
  C2. A server of the registry is a candidate of a search exactly when it satisfies
  every filter that is supplied, each filter being satisfied by default when it is not
  supplied; and the server of every returned result is such a candidate.
\<close>

theorem candidates_satisfy_every_filter:
  "(srv \<in> set (filteredServers f svs) \<longleftrightarrow> srv \<in> set svs \<and> satisfiesEveryFilter f srv)
   \<and> (\<forall>r \<in> set (results (searchLoaded h svs f opts)).
         server r \<in> set svs \<and> satisfiesEveryFilter f (server r))"
proof
  show "srv \<in> set (filteredServers f svs) \<longleftrightarrow> srv \<in> set svs \<and> satisfiesEveryFilter f srv"
    by (simp add: filteredServers_def serverPassesFilters_iff)
next
  show "\<forall>r \<in> set (results (searchLoaded h svs f opts)).
         server r \<in> set svs \<and> satisfiesEveryFilter f (server r)"
  proof
    fix r assume "r \<in> set (results (searchLoaded h svs f opts))"
    with results_searchLoaded_subset [of h svs f opts]
    have "server r \<in> set (filteredServers f svs)"
      using scoredResults_server by blast
    then show "server r \<in> set svs \<and> satisfiesEveryFilter f (server r)"
      by (simp add: filteredServers_def serverPassesFilters_iff)
  qed
qed

theorem candidates_satisfy_every_filter_witness:
  "sampleServer ''alpha'' ''first tool'' official ''N/A''
     \<in> set (filteredServers (noFilters\<lparr>SearchFilters.classification := Some [official]\<rparr>)
               (servers sampleRegistry))
   \<and> satisfiesEveryFilter (noFilters\<lparr>SearchFilters.classification := Some [official]\<rparr>)
        (sampleServer ''alpha'' ''first tool'' official ''N/A'')
   \<and> sampleServer ''beta'' ''second tool'' community ''500''
     \<notin> set (filteredServers (noFilters\<lparr>SearchFilters.classification := Some [official]\<rparr>)
               (servers sampleRegistry))
   \<and> \<not> classificationOk (noFilters\<lparr>SearchFilters.classification := Some [official]\<rparr>)
        (sampleServer ''beta'' ''second tool'' community ''500'')"
proof -
  let ?f = "noFilters\<lparr>SearchFilters.classification := Some [official]\<rparr>"
  let ?a = "sampleServer ''alpha'' ''first tool'' official ''N/A''"
  let ?b = "sampleServer ''beta'' ''second tool'' community ''500''"
  have a1: "?a \<in> set (servers sampleRegistry)" by (simp add: sampleRegistry_def)
  have a2: "satisfiesEveryFilter ?f ?a" by code_simp
  have b2: "\<not> classificationOk ?f ?b" by code_simp
  then have b3: "\<not> satisfiesEveryFilter ?f ?b" by (simp add: satisfiesEveryFilter_def)
  from candidates_satisfy_every_filter [of ?a ?f "servers sampleRegistry" sampleHost defaultOptions]
       candidates_satisfy_every_filter [of ?b ?f "servers sampleRegistry" sampleHost defaultOptions]
  show ?thesis using a1 a2 b2 b3 by blast
qed

subsection \<open>Results without a textual match\<close>

lemma fuzzyLoop_subseq:
  "fuzzyLoop p t i s c = (j, s') \<Longrightarrow> i \<le> length p \<Longrightarrow> j = length p \<Longrightarrow> subseq (drop i p) t"
proof (induction t arbitrary: i s c)
  case Nil
  then show ?case by simp
next
  case (Cons x xs)
  show ?case
  proof (cases "i < length p")
    case False
    with Cons.prems show ?thesis by simp
  next
    case True
    show ?thesis
    proof (cases "x = p ! i")
      case True
      with \<open>i < length p\<close> Cons.prems
      have "fuzzyLoop p xs (i + 1) (s + (c + 1)) (c + 1) = (j, s')" by simp
      with Cons.IH [of "i + 1"] \<open>i < length p\<close> Cons.prems
      have "subseq (drop (i + 1) p) xs" by simp
      moreover from \<open>i < length p\<close> have "drop i p = p ! i # drop (i + 1) p"
        by (simp add: Cons_nth_drop_Suc)
      ultimately show ?thesis using True by simp
    next
      case False
      with \<open>i < length p\<close> Cons.prems
      have "fuzzyLoop p xs i s 0 = (j, s')" by simp
      with Cons.IH [of i] Cons.prems have "subseq (drop i p) xs" by simp
      then show ?thesis by (rule list_emb_Cons)
    qed
  qed
qed

lemma fuzzyMatch_nonneg: "0 \<le> fuzzyMatch p t"
  by (auto simp: fuzzyMatch_def Let_def split: prod.splits)

lemma fuzzyMatch_pos_subseq: "0 < fuzzyMatch p t \<Longrightarrow> p \<noteq> [] \<and> subseq p t"
proof -
  assume pos: "0 < fuzzyMatch p t"
  then have ne: "p \<noteq> []" by (auto simp: fuzzyMatch_def)
  obtain j s' where l: "fuzzyLoop p t 0 0 0 = (j, s')" by (cases "fuzzyLoop p t 0 0 0")
  with pos ne have "j = length p"
    by (auto simp: fuzzyMatch_def Let_def split: if_splits)
  with fuzzyLoop_subseq [OF l] have "subseq p t" by simp
  with ne show ?thesis by simp
qed

text \<open>
  Without the two boosts the score filter does what it is there for: a positive score
  comes from a field that contains the query or from a fuzzy match.
\<close>

lemma positive_score_without_boost_is_textual_match:
  assumes "0 < calculateRelevanceScore srv q fz"
      and "popularityBoost srv = 0" and "officialBoost srv = 0"
  shows "textualMatch srv q"
proof (cases "substringWeights srv q = 0")
  case False
  then show ?thesis
    by (auto simp: substringWeights_def textualMatch_def Let_def split: if_splits)
next
  case True
  with assms have "0 < fuzzyBonus srv q fz"
    by (simp add: calculateRelevanceScore_sum)
  then have "0 < fuzzyMatch (toLowerCase q) (toLowerCase (MCPServer.name srv))
             \<or> 0 < fuzzyMatch (toLowerCase q) (toLowerCase (description srv))"
    using fuzzyMatch_nonneg [of "toLowerCase q" "toLowerCase (MCPServer.name srv)"]
          fuzzyMatch_nonneg [of "toLowerCase q" "toLowerCase (description srv)"]
    by (auto simp: fuzzyBonus_def split: if_splits)
  then show ?thesis
    using fuzzyMatch_pos_subseq by (auto simp: textualMatch_def Let_def)
qed

text \<open>
  C3. The claim is that a result of a search with a query always matches the query
  textually. The boosts are added to the score whether or not anything matched, so an
  official (or popular) server passes the test \<^verbatim>\<open>score > 0\<close> on its boost alone: the
  query \<^verbatim>\<open>zzz\<close> returns the official server \<^verbatim>\<open>alpha\<close> with score 2 and no matched field,
  although no field of it contains the query and the query is no subsequence of its name
  or description.
\<close>

theorem official_server_returned_without_match:
  "searchZzz = (Inr (projr (fst searchZzz)), loadedManager)
   \<and> results (projr (fst searchZzz))
       = [\<lparr>server = sampleServer ''alpha'' ''first tool'' official ''N/A'', score = 2, matchedFields = []\<rparr>]
   \<and> \<not> textualMatch (sampleServer ''alpha'' ''first tool'' official ''N/A'') ''zzz''"
proof -
  have "searchZzz = (Inr (projr (fst searchZzz)), loadedManager)"
    by (simp add: searchZzz_def searchServers_sample)
  moreover have "results (projr (fst searchZzz))
       = [\<lparr>server = sampleServer ''alpha'' ''first tool'' official ''N/A'', score = 2, matchedFields = []\<rparr>]"
    by code_simp
  moreover have "\<not> textualMatch (sampleServer ''alpha'' ''first tool'' official ''N/A'') ''zzz''"
    by (simp add: textualMatch_def sampleServer_def toLowerCase_def toLowerChar_def Let_def)
  ultimately show ?thesis by blast
qed

subsection \<open>Pagination\<close>




subsection \<open>Read operations and the loaded registry\<close>





end
